theory Spec2Isabelle
  imports Complex_Main
begin

section \<open>Population records\<close>

text \<open>
  \<^verbatim>\<open>api.py\<close> declares the dataclass \<^verbatim>\<open>PopulationData(country: str, year: int,
  population: int, growth_rate: Optional[float] = None)\<close>. Python does not enforce the
  annotation of \<^verbatim>\<open>population\<close>: the fetch client stores whatever the JSON response
  carries in its \<^verbatim>\<open>value\<close> field. The record is therefore polymorphic in the type of the
  population: \<open>int PopulationData\<close> is the record as declared, and the fetch client below
  produces records whose population is a JSON value.

  Python floats are modelled by the reals: the arithmetic of the program is read as exact
  arithmetic, and rounding is not part of the model.
\<close>

record 'p PopulationData =
  country :: string
  year :: int
  population :: 'p
  growth_rate :: "real option"

text \<open>
  The exceptions the program can raise or catch. \<open>ClientError\<close> stands for any exception
  of the HTTP layer, \<open>JSONDecodeError\<close> for any exception of \<^verbatim>\<open>response.json()\<close>.
\<close>

datatype error =
    ValueError string
  | TypeError
  | KeyError
  | IndexError
  | ClientError
  | JSONDecodeError

section \<open>The growth-rate pass of \<^verbatim>\<open>calculate_growth_rate\<close>\<close>

text \<open>
  Lines 136 to 143 of \<^verbatim>\<open>api.py\<close>:
  \<^verbatim>\<open>
  for i in range(1, len(population_data)):
      prev_pop = population_data[i-1].population
      curr_pop = population_data[i].population
      if prev_pop > 0:
          growth_rate = ((curr_pop - prev_pop) / prev_pop) * 100
          population_data[i].growth_rate = growth_rate
  return population_data
  \<close>
  \<open>growth_step\<close> is one iteration of the loop body at index \<open>i\<close>; the loop runs it for
  \<open>i = 1, ..., len - 1\<close> in this order. The list \<open>population_data\<close> is the one collected from
  the range fetcher in lines 131 to 133; its records are distinct objects, so the assignment
  to \<^verbatim>\<open>population_data[i].growth_rate\<close> changes the record at index \<open>i\<close> only. The indices
  \<open>i - 1\<close> and \<open>i\<close> are within the list for every \<open>i\<close> of the range.
\<close>

definition growth_step :: "int PopulationData list \<Rightarrow> nat \<Rightarrow> int PopulationData list" where
  "growth_step population_data i =
     (let prev_pop = population (population_data ! (i - 1));
          curr_pop = population (population_data ! i)
      in if prev_pop > 0
         then population_data
                [i := (population_data ! i)
                   \<lparr>growth_rate := Some ((real_of_int (curr_pop - prev_pop) / real_of_int prev_pop) * 100)\<rparr>]
         else population_data)"

definition calculate_growth_rate :: "int PopulationData list \<Rightarrow> int PopulationData list" where
  "calculate_growth_rate population_data =
     foldl growth_step population_data [1 ..< length population_data]"


section \<open>JSON values and the Python operations applied to them\<close>

text \<open>
  The body of a response, as \<^verbatim>\<open>response.json()\<close> returns it: \<^verbatim>\<open>None\<close>, a bool, an int, a
  float, a string, a list or a dict with string keys (an association list in document order;
  Python keeps the last value of a repeated key).
\<close>

datatype json =
    JNull
  | JBool bool
  | JInt int
  | JFloat real
  | JStr string
  | JArr "json list"
  | JObj "(string \<times> json) list"

text \<open>Truth value of an object in a condition (\<^verbatim>\<open>if data and ...\<close>).\<close>

fun truthy :: "json \<Rightarrow> bool" where
  "truthy JNull = False"
| "truthy (JBool b) = b"
| "truthy (JInt n) = (n \<noteq> 0)"
| "truthy (JFloat r) = (r \<noteq> 0)"
| "truthy (JStr s) = (s \<noteq> [])"
| "truthy (JArr xs) = (xs \<noteq> [])"
| "truthy (JObj kvs) = (kvs \<noteq> [])"

text \<open>\<^verbatim>\<open>len(x)\<close>: defined on strings, lists and dicts, a \<^verbatim>\<open>TypeError\<close> otherwise.\<close>

fun py_len :: "json \<Rightarrow> error + nat" where
  "py_len (JStr s) = Inr (length s)"
| "py_len (JArr xs) = Inr (length xs)"
| "py_len (JObj kvs) = Inr (length (remdups (map fst kvs)))"
| "py_len _ = Inl TypeError"

text \<open>
  \<^verbatim>\<open>x[i]\<close> for a non-negative integer literal \<open>i\<close>: an element of a list, a character of a
  string, \<^verbatim>\<open>IndexError\<close> out of range, \<^verbatim>\<open>KeyError\<close> on a dict (its keys are strings), a
  \<^verbatim>\<open>TypeError\<close> on everything else.
\<close>

fun py_index :: "json \<Rightarrow> nat \<Rightarrow> error + json" where
  "py_index (JArr xs) i = (if i < length xs then Inr (xs ! i) else Inl IndexError)"
| "py_index (JStr s) i = (if i < length s then Inr (JStr [s ! i]) else Inl IndexError)"
| "py_index (JObj kvs) i = Inl KeyError"
| "py_index _ i = Inl TypeError"

text \<open>
  \<^verbatim>\<open>x['value']\<close>: the value stored under the key in a dict, \<^verbatim>\<open>KeyError\<close> when the key is
  absent, a \<^verbatim>\<open>TypeError\<close> on everything else (lists and strings take integer indices).
\<close>

fun py_key :: "json \<Rightarrow> string \<Rightarrow> error + json" where
  "py_key (JObj kvs) k = (case map_of (rev kvs) k of None \<Rightarrow> Inl KeyError | Some v \<Rightarrow> Inr v)"
| "py_key _ k = Inl TypeError"

text \<open>
  \<^verbatim>\<open>x > 0\<close>: numbers compare (a bool is the integer 0 or 1), everything else raises
  \<^verbatim>\<open>TypeError\<close>.
\<close>

fun py_gt_zero :: "json \<Rightarrow> error + bool" where
  "py_gt_zero (JInt n) = Inr (n > 0)"
| "py_gt_zero (JFloat r) = Inr (r > 0)"
| "py_gt_zero (JBool b) = Inr b"
| "py_gt_zero _ = Inl TypeError"

section \<open>The fetch client\<close>

subsection \<open>\<^verbatim>\<open>get_country_population\<close>\<close>

text \<open>
  What the HTTP layer does with the request of one call: it raises, or it delivers a response
  with a status and a body; \<open>None\<close> is a body on which \<^verbatim>\<open>response.json()\<close> raises.
\<close>

datatype http_outcome =
    ConnectionFailed
  | Response int "json option"

text \<open>
  The \<^verbatim>\<open>try\<close> block of lines 70 to 81. \<open>Inl e\<close>: the block raised \<open>e\<close>; \<open>Inr None\<close>: the
  block ended without returning; \<open>Inr (Some v)\<close>: the block returned a record with
  population \<open>v\<close>.
  \<^verbatim>\<open>
  if response.status == 200:
      data = await response.json()
      if data and len(data) > 1 and data[1]:
          population = data[1][0]['value']
          return PopulationData(country=country_code, year=year, population=population)
  \<close>
\<close>

definition try_fetch :: "http_outcome \<Rightarrow> error + json option" where
  "try_fetch outcome =
     (case outcome of
        ConnectionFailed \<Rightarrow> Inl ClientError
      | Response status body \<Rightarrow>
          if status = 200 then
            (case body of
               None \<Rightarrow> Inl JSONDecodeError
             | Some data \<Rightarrow>
                 if \<not> truthy data then Inr None
                 else (case py_len data of
                   Inl e \<Rightarrow> Inl e
                 | Inr n \<Rightarrow>
                     if \<not> n > 1 then Inr None
                     else (case py_index data 1 of
                       Inl e \<Rightarrow> Inl e
                     | Inr data1 \<Rightarrow>
                         if \<not> truthy data1 then Inr None
                         else (case py_index data1 0 of
                           Inl e \<Rightarrow> Inl e
                         | Inr obs \<Rightarrow>
                             (case py_key obs ''value'' of
                                Inl e \<Rightarrow> Inl e
                              | Inr v \<Rightarrow> Inr (Some v))))))
          else Inr None)"

text \<open>
  The whole method: an exception of the block is caught and logged (line 83), and every path
  that did not return ends in line 85, the record with population 0. The admission through
  the semaphore and \<^verbatim>\<open>_rate_limit\<close> precedes the request and has no part in the result.
\<close>

definition get_country_population :: "http_outcome \<Rightarrow> string \<Rightarrow> int \<Rightarrow> json PopulationData" where
  "get_country_population outcome country_code yr =
     (case try_fetch outcome of
        Inr (Some v) \<Rightarrow>
          \<lparr>country = country_code, year = yr, population = v, growth_rate = None\<rparr>
      | _ \<Rightarrow>
          \<lparr>country = country_code, year = yr, population = JInt 0, growth_rate = None\<rparr>)"

subsection \<open>\<^verbatim>\<open>get_country_population_range\<close>\<close>

text \<open>
  Lines 109 to 112: the completed records are taken one by one and those with
  \<^verbatim>\<open>data.population > 0\<close> are yielded. A comparison that raises ends the generator with
  the exception; what was yielded before stays yielded. The result is the list of yielded
  records and the exception, if any.
\<close>

fun yield_valid :: "json PopulationData list \<Rightarrow> json PopulationData list \<times> error option" where
  "yield_valid [] = ([], None)"
| "yield_valid (d # ds) =
     (case py_gt_zero (population d) of
        Inl e \<Rightarrow> ([], Some e)
      | Inr b \<Rightarrow>
          (let (ys, r) = yield_valid ds in ((if b then [d] else []) @ ys, r)))"

text \<open>
  One task per year of \<^verbatim>\<open>range(start_year, end_year + 1)\<close>. \<open>api\<close> is what the HTTP layer
  does for a country and a year; \<open>completion\<close> is the order in which
  \<^verbatim>\<open>asyncio.as_completed\<close> delivers the tasks, which the scheduler decides.
\<close>

definition get_country_population_range ::
  "(string \<Rightarrow> int \<Rightarrow> http_outcome) \<Rightarrow> (int list \<Rightarrow> int list) \<Rightarrow> string \<Rightarrow> int \<Rightarrow> int
     \<Rightarrow> json PopulationData list \<times> error option" where
  "get_country_population_range api completion country_code start_year end_year =
     yield_valid
       (map (\<lambda>yr. get_country_population (api country_code yr) country_code yr)
            (completion [start_year .. end_year]))"

text \<open>
  The response shape of the interface description, \<^verbatim>\<open>[metadata, [{value: number, ...}, ...]]\<close>:
  a two-element array whose element 1 is a non-empty list of observation objects with a
  \<^verbatim>\<open>value\<close> field. The value of an observation is a number, and a population is never
  negative; a \<^verbatim>\<open>null\<close>, a string or a negative number in the field is not the expected shape.
\<close>

definition is_observation :: "json \<Rightarrow> bool" where
  "is_observation j =
     (case j of
        JObj kvs \<Rightarrow>
          (case map_of (rev kvs) ''value'' of
             Some (JInt n) \<Rightarrow> 0 \<le> n
           | Some (JFloat r) \<Rightarrow> 0 \<le> r
           | _ \<Rightarrow> False)
      | _ \<Rightarrow> False)"

definition expected_shape :: "json \<Rightarrow> bool" where
  "expected_shape data =
     (case data of
        JArr [meta, JArr obs] \<Rightarrow> obs \<noteq> [] \<and> list_all is_observation obs
      | _ \<Rightarrow> False)"

text \<open>
  The responses the method takes a population from: status 200, a body that parses to an
  array of at least two elements whose element 1 is a non-empty array whose first element is
  an object with a \<^verbatim>\<open>value\<close> key.
\<close>

definition accepted_value :: "http_outcome \<Rightarrow> json option" where
  "accepted_value outcome =
     (case outcome of
        Response status (Some (JArr (meta # JArr (JObj kvs # obs) # others))) \<Rightarrow>
          if status = 200 then map_of (rev kvs) ''value'' else None
      | _ \<Rightarrow> None)"

subsection \<open>\<^verbatim>\<open>_rate_limit\<close>\<close>

text \<open>
  The fields of the client that the limiter uses; times are seconds on the clock that
  \<^verbatim>\<open>datetime.now()\<close> reads. The semaphore is not part of the record.
\<close>

record PopulationAPIClient =
  rate_limit :: int
  time_window :: int
  last_request_time :: real
  request_count :: int

definition init_client :: "int \<Rightarrow> int \<Rightarrow> real \<Rightarrow> PopulationAPIClient" where
  "init_client rl tw now =
     \<lparr>rate_limit = rl, time_window = tw, last_request_time = now, request_count = 0\<rparr>"

text \<open>
  Lines 37 to 48. \<open>now\<close> is the clock reading of line 37, \<open>woke\<close> the reading of line 46,
  after the sleep. The result is the client after the call and the duration passed to
  \<^verbatim>\<open>asyncio.sleep\<close>, if the call slept.
\<close>

definition rate_limit_call ::
  "PopulationAPIClient \<Rightarrow> real \<Rightarrow> real \<Rightarrow> PopulationAPIClient \<times> real option" where
  "rate_limit_call self now woke =
     (let time_diff = now - last_request_time self;
          (self1, slept) =
            (if time_diff \<ge> real_of_int (time_window self)
             then (self\<lparr>request_count := 0, last_request_time := now\<rparr>, None)
             else if request_count self \<ge> rate_limit self
             then (self\<lparr>request_count := 0, last_request_time := woke\<rparr>,
                   Some (real_of_int (time_window self) - time_diff))
             else (self, None))
      in (self1\<lparr>request_count := request_count self1 + 1\<rparr>, slept))"

text \<open>
  The admission check in the words of the design: the window is its start time and the count
  of admissions in it.
\<close>

record window =
  window_start_time :: real
  count_in_window :: int

definition admission_check ::
  "int \<Rightarrow> int \<Rightarrow> window \<Rightarrow> real \<Rightarrow> real \<Rightarrow> window \<times> real option" where
  "admission_check limit length_of_window w now after_suspension =
     (let elapsed = now - window_start_time w in
      if elapsed \<ge> real_of_int length_of_window
      then (\<lparr>window_start_time = now, count_in_window = 0 + 1\<rparr>, None)
      else if count_in_window w \<ge> limit
      then (\<lparr>window_start_time = after_suspension, count_in_window = 0 + 1\<rparr>,
            Some (real_of_int length_of_window - elapsed))
      else (\<lparr>window_start_time = window_start_time w, count_in_window = count_in_window w + 1\<rparr>,
            None))"

definition window_of :: "PopulationAPIClient \<Rightarrow> window" where
  "window_of self =
     \<lparr>window_start_time = last_request_time self, count_in_window = request_count self\<rparr>"

text \<open>
  A sequence of \<open>n\<close> calls, one after the other, on a clock that starts at \<open>clock\<close> and that
  only the sleeps advance, each by its duration. For every call the list has the duration it
  slept, if it did, and the time at which it was admitted.
\<close>

fun issue_calls :: "nat \<Rightarrow> PopulationAPIClient \<Rightarrow> real \<Rightarrow> (real option \<times> real) list" where
  "issue_calls 0 self clock = []"
| "issue_calls (Suc n) self clock =
     (let remaining = real_of_int (time_window self) - (clock - last_request_time self);
          (self', slept) = rate_limit_call self clock (clock + remaining);
          clock' = (case slept of None \<Rightarrow> clock | Some d \<Rightarrow> clock + d)
      in (slept, clock') # issue_calls n self' clock')"

section \<open>The analysis functions\<close>

text \<open>
  \<^verbatim>\<open>analysis.py\<close> builds a pandas \<^verbatim>\<open>DataFrame\<close> from a list of dicts that all have the same
  keys. Its columns are these keys when the list has a dict, and there is no column when
  the list is empty.
\<close>

definition df_columns :: "string list \<Rightarrow> 'a list \<Rightarrow> string list" where
  "df_columns keys dicts = (if dicts = [] then [] else keys)"

text \<open>
  A float that \<^verbatim>\<open>Series.mean()\<close> returns: a number, or \<^verbatim>\<open>nan\<close>. The mean skips the missing
  entries of the column (\<^verbatim>\<open>skipna=True\<close>, the default) and is \<^verbatim>\<open>nan\<close> when nothing is left.
\<close>

datatype pyfloat = Finite real | NaN

definition series_mean :: "real option list \<Rightarrow> pyfloat" where
  "series_mean col =
     (let present = [v. Some v \<leftarrow> col] in
      if present = [] then NaN else Finite (sum_list present / real (length present)))"

record PopulationAnalysis =
  country :: string
  start_year :: int
  end_year :: int
  average_growth_rate :: pyfloat
  max_population :: int
  min_population :: int
  total_change :: int
  percentage_change :: real

definition process_population_data :: "int PopulationData list \<Rightarrow> int PopulationData list" where
  "process_population_data data = filter (\<lambda>entry. population entry > 0) data"

definition analyze_population_trends :: "int PopulationData list \<Rightarrow> error + PopulationAnalysis" where
  "analyze_population_trends data =
     (let valid_data = process_population_data data in
      case valid_data of
        [] \<Rightarrow> Inl (ValueError ''No valid population data available for analysis'')
      | first # _ \<Rightarrow>
          (let avg_growth =
                 (if ''growth_rate'' \<in> set (df_columns [''year'', ''population'', ''growth_rate''] valid_data)
                  then series_mean (map growth_rate valid_data)
                  else Finite 0);
               max_pop = Max (set (map population valid_data));
               min_pop = Min (set (map population valid_data));
               total_change = max_pop - min_pop;
               percentage_change =
                 (if min_pop > 0 then (real_of_int total_change / real_of_int min_pop) * 100 else 0)
           in Inr \<lparr>PopulationAnalysis.country = PopulationData.country first,
                   start_year = Min (set (map year valid_data)),
                   end_year = Max (set (map year valid_data)),
                   average_growth_rate = avg_growth,
                   max_population = max_pop,
                   min_population = min_pop,
                   total_change = total_change,
                   percentage_change = percentage_change\<rparr>))"

subsection \<open>\<^verbatim>\<open>filter_by_growth_rate\<close>\<close>

text \<open>
  \<^verbatim>\<open>x.growth_rate >= min_growth\<close> and \<^verbatim>\<open>x.growth_rate <= max_growth\<close>: a comparison of
  \<^verbatim>\<open>None\<close> with a float raises \<^verbatim>\<open>TypeError\<close>.
\<close>

definition py_ge :: "real option \<Rightarrow> real \<Rightarrow> error + bool" where
  "py_ge g bound = (case g of None \<Rightarrow> Inl TypeError | Some v \<Rightarrow> Inr (v \<ge> bound))"

definition py_le :: "real option \<Rightarrow> real \<Rightarrow> error + bool" where
  "py_le g bound = (case g of None \<Rightarrow> Inl TypeError | Some v \<Rightarrow> Inr (v \<le> bound))"

text \<open>
  The lambda of lines 95 to 98; \<^verbatim>\<open>or\<close> and \<^verbatim>\<open>and\<close> evaluate their right operand only when
  the left one does not decide.
\<close>

definition growth_filter ::
  "real option \<Rightarrow> real option \<Rightarrow> int PopulationData \<Rightarrow> error + bool" where
  "growth_filter min_growth max_growth x =
     (case (case min_growth of None \<Rightarrow> Inr True | Some lo \<Rightarrow> py_ge (growth_rate x) lo) of
        Inl e \<Rightarrow> Inl e
      | Inr False \<Rightarrow> Inr False
      | Inr True \<Rightarrow>
          (case max_growth of None \<Rightarrow> Inr True | Some hi \<Rightarrow> py_le (growth_rate x) hi))"

text \<open>\<^verbatim>\<open>list(filter(f, data))\<close>: the first call of \<open>f\<close> that raises ends the evaluation.\<close>

fun py_filter :: "('a \<Rightarrow> error + bool) \<Rightarrow> 'a list \<Rightarrow> error + 'a list" where
  "py_filter f [] = Inr []"
| "py_filter f (x # xs) =
     (case f x of
        Inl e \<Rightarrow> Inl e
      | Inr b \<Rightarrow>
          (case py_filter f xs of
             Inl e \<Rightarrow> Inl e
           | Inr ys \<Rightarrow> Inr (if b then x # ys else ys)))"

definition filter_by_growth_rate ::
  "int PopulationData list \<Rightarrow> real option \<Rightarrow> real option \<Rightarrow> error + int PopulationData list" where
  "filter_by_growth_rate data min_growth max_growth =
     py_filter (growth_filter min_growth max_growth) data"

subsection \<open>\<^verbatim>\<open>export_to_csv\<close>\<close>

text \<open>
  The values of the dicts of lines 113 to 121, and the file that
  \<^verbatim>\<open>df.to_csv(filename, index=False)\<close> writes, as its list of lines, each line the list of
  its fields: the line of the column names, then one line per row of the frame. A
  \<^verbatim>\<open>None\<close> is written as an empty field. The text of a field is not part of the model.
\<close>

datatype cell = CStr string | CInt int | CFloat real | CNone

definition record_cells :: "int PopulationData \<Rightarrow> cell list" where
  "record_cells d =
     [CStr (PopulationData.country d), CInt (year d), CInt (population d),
      (case growth_rate d of None \<Rightarrow> CNone | Some g \<Rightarrow> CFloat g)]"

definition export_to_csv :: "int PopulationData list \<Rightarrow> cell list list" where
  "export_to_csv data =
     map CStr (df_columns [''country'', ''year'', ''population'', ''growth_rate''] data)
       # map record_cells data"

section \<open>Properties of the growth-rate pass\<close>

subsection \<open>The loop invariant\<close>

lemma growth_step_length: "length (growth_step xs i) = length xs"
  by (simp add: growth_step_def Let_def)

lemma growth_loop_length: "length (foldl growth_step xs is) = length xs"
  by (induction "is" arbitrary: xs) (simp_all add: growth_step_length)

lemma growth_step_frame:
  "j < length xs \<Longrightarrow>
     PopulationData.country (growth_step xs i ! j) = PopulationData.country (xs ! j) \<and>
     year (growth_step xs i ! j) = year (xs ! j) \<and>
     population (growth_step xs i ! j) = population (xs ! j)"
  by (cases "i = j") (simp_all add: growth_step_def Let_def)

lemma growth_loop_frame:
  "j < length xs \<Longrightarrow>
     PopulationData.country (foldl growth_step xs is ! j) = PopulationData.country (xs ! j) \<and>
     year (foldl growth_step xs is ! j) = year (xs ! j) \<and>
     population (foldl growth_step xs is ! j) = population (xs ! j)"
proof (induction "is" arbitrary: xs)
  case Nil
  show ?case by simp
next
  case (Cons i "is")
  have "j < length (growth_step xs i)"
    using Cons.prems by (simp add: growth_step_length)
  from Cons.IH [OF this] growth_step_frame [OF Cons.prems, of i]
  show ?case by simp
qed

text \<open>
  After the iterations \<open>1, ..., k - 1\<close> the records below \<open>k\<close> carry their final growth
  rate and the records from \<open>k\<close> on are as they were.
\<close>

lemma growth_loop_prefix:
  assumes "k \<le> length xs" and "j < length xs"
  shows "growth_rate (foldl growth_step xs [1 ..< k] ! j) =
           (if 1 \<le> j \<and> j < k \<and> population (xs ! (j - 1)) > 0
            then Some ((real_of_int (population (xs ! j) - population (xs ! (j - 1)))
                         / real_of_int (population (xs ! (j - 1)))) * 100)
            else growth_rate (xs ! j))"
  using assms
proof (induction k)
  case 0
  then show ?case by simp
next
  case (Suc k)
  show ?case
  proof (cases "1 \<le> k")
    case False
    then have "k = 0" by simp
    then show ?thesis by auto
  next
    case True
    let ?ys = "foldl growth_step xs [1 ..< k]"
    have len: "length ?ys = length xs"
      by (rule growth_loop_length)
    have k: "k < length xs" and k1: "k - 1 < length xs"
      using Suc.prems by simp_all
    have pk: "population (?ys ! k) = population (xs ! k)"
      using growth_loop_frame [OF k] by simp
    have pk1: "population (?ys ! (k - 1)) = population (xs ! (k - 1))"
      using growth_loop_frame [OF k1] by simp
    have ih: "growth_rate (?ys ! j) =
           (if 1 \<le> j \<and> j < k \<and> population (xs ! (j - 1)) > 0
            then Some ((real_of_int (population (xs ! j) - population (xs ! (j - 1)))
                         / real_of_int (population (xs ! (j - 1)))) * 100)
            else growth_rate (xs ! j))"
      using Suc.IH Suc.prems by simp
    have unfold: "foldl growth_step xs [1 ..< Suc k] = growth_step ?ys k"
      using True by simp
    show ?thesis
    proof (cases "j = k")
      case True
      then show ?thesis
        unfolding unfold using k len pk pk1 ih \<open>1 \<le> k\<close>
        by (simp add: growth_step_def Let_def)
    next
      case False
      then show ?thesis
        unfolding unfold using len ih Suc.prems
        by (simp add: growth_step_def Let_def nth_list_update)
    qed
  qed
qed

lemma calculate_growth_rate_nth:
  assumes "j < length xs"
  shows "growth_rate (calculate_growth_rate xs ! j) =
           (if 1 \<le> j \<and> population (xs ! (j - 1)) > 0
            then Some ((real_of_int (population (xs ! j) - population (xs ! (j - 1)))
                         / real_of_int (population (xs ! (j - 1)))) * 100)
            else growth_rate (xs ! j))"
  using growth_loop_prefix [of "length xs" xs j] assms
  by (simp add: calculate_growth_rate_def)

subsection \<open>The annotation\<close>

text \<open>
  Claim C1. The pass gives the record at every index \<open>i \<ge> 1\<close> the growth rate
  \<open>(population[i] - population[i-1]) / population[i-1] * 100\<close>, leaves the growth rate of
  the record as it was (unset, for a record that came in unset) when \<open>population[i-1] = 0\<close>,
  and leaves the growth rate of the record at index 0 as it was. Populations are not
  negative, as the data model says. The order of the years plays no part, so the statement
  holds for every list, the lists sorted by year among them. On the populations
  100, 110, 99 the growth rates are unset, 10 and -10.
\<close>

theorem calculate_growth_rate_annotates:
  assumes "\<forall>d \<in> set population_data. 0 \<le> population d"
  shows
    "(\<forall>i < length population_data.
        growth_rate (calculate_growth_rate population_data ! i) =
          (if i = 0 \<or> population (population_data ! (i - 1)) = 0
           then growth_rate (population_data ! i)
           else Some ((real_of_int (population (population_data ! i)
                                     - population (population_data ! (i - 1)))
                        / real_of_int (population (population_data ! (i - 1)))) * 100)))
     \<and> map growth_rate
         (calculate_growth_rate
            [\<lparr>PopulationData.country = ''USA'', year = 2000, population = 100, growth_rate = None\<rparr>,
             \<lparr>PopulationData.country = ''USA'', year = 2001, population = 110, growth_rate = None\<rparr>,
             \<lparr>PopulationData.country = ''USA'', year = 2002, population = 99, growth_rate = None\<rparr>])
       = [None, Some 10, Some (- 10)]"
proof (intro conjI allI impI)
  fix i
  assume i: "i < length population_data"
  show "growth_rate (calculate_growth_rate population_data ! i) =
          (if i = 0 \<or> population (population_data ! (i - 1)) = 0
           then growth_rate (population_data ! i)
           else Some ((real_of_int (population (population_data ! i)
                                     - population (population_data ! (i - 1)))
                        / real_of_int (population (population_data ! (i - 1)))) * 100))"
  proof (cases "i = 0")
    case True
    then show ?thesis
      using calculate_growth_rate_nth [OF i] by simp
  next
    case False
    then have "i - 1 < length population_data"
      using i by simp
    then have "0 \<le> population (population_data ! (i - 1))"
      using assms by simp
    then have "(population (population_data ! (i - 1)) > 0)
                 = (population (population_data ! (i - 1)) \<noteq> 0)"
      by linarith
    then show ?thesis
      using calculate_growth_rate_nth [OF i] False by simp
  qed
next
  show "map growth_rate
         (calculate_growth_rate
            [\<lparr>PopulationData.country = ''USA'', year = 2000, population = 100, growth_rate = None\<rparr>,
             \<lparr>PopulationData.country = ''USA'', year = 2001, population = 110, growth_rate = None\<rparr>,
             \<lparr>PopulationData.country = ''USA'', year = 2002, population = 99, growth_rate = None\<rparr>])
       = [None, Some 10, Some (- 10)]"
    by (simp add: calculate_growth_rate_def growth_step_def Let_def)
qed

theorem calculate_growth_rate_annotates_witness:
  "list_all (\<lambda>d. 0 \<le> population d)
     [\<lparr>PopulationData.country = ''FRA'', year = 1999, population = 0 :: int, growth_rate = None\<rparr>,
      \<lparr>PopulationData.country = ''FRA'', year = 2000, population = 50, growth_rate = None\<rparr>,
      \<lparr>PopulationData.country = ''FRA'', year = 2001, population = 60, growth_rate = None\<rparr>]
   \<and> growth_rate
        (calculate_growth_rate
           [\<lparr>PopulationData.country = ''FRA'', year = 1999, population = 0, growth_rate = None\<rparr>,
            \<lparr>PopulationData.country = ''FRA'', year = 2000, population = 50, growth_rate = None\<rparr>,
            \<lparr>PopulationData.country = ''FRA'', year = 2001, population = 60, growth_rate = None\<rparr>] ! 1)
       = None
   \<and> growth_rate
        (calculate_growth_rate
           [\<lparr>PopulationData.country = ''FRA'', year = 1999, population = 0, growth_rate = None\<rparr>,
            \<lparr>PopulationData.country = ''FRA'', year = 2000, population = 50, growth_rate = None\<rparr>,
            \<lparr>PopulationData.country = ''FRA'', year = 2001, population = 60, growth_rate = None\<rparr>] ! 2)
       = Some 20"
proof -
  let ?xs = "[\<lparr>PopulationData.country = ''FRA'', year = 1999, population = 0, growth_rate = None\<rparr>,
              \<lparr>PopulationData.country = ''FRA'', year = 2000, population = 50, growth_rate = None\<rparr>,
              \<lparr>PopulationData.country = ''FRA'', year = 2001, population = (60::int), growth_rate = None\<rparr>]"
  have h: "\<forall>d \<in> set ?xs. 0 \<le> population d"
    by simp
  from calculate_growth_rate_annotates [OF h]
  have all: "\<forall>i < length ?xs.
        growth_rate (calculate_growth_rate ?xs ! i) =
          (if i = 0 \<or> population (?xs ! (i - 1)) = 0
           then growth_rate (?xs ! i)
           else Some ((real_of_int (population (?xs ! i) - population (?xs ! (i - 1)))
                        / real_of_int (population (?xs ! (i - 1)))) * 100))"
    by (rule conjunct1)
  have one: "growth_rate (calculate_growth_rate ?xs ! 1) = None"
    using all [rule_format, of 1] by simp
  have two: "growth_rate (calculate_growth_rate ?xs ! 2) = Some 20"
    using all [rule_format, of 2] by simp
  from h one two show ?thesis by simp
qed

subsection \<open>The frame of the pass\<close>

text \<open>
  Claim C10. The pass writes growth rates only: the returned list has the length of the
  list that came in and, position by position, the countries, years and populations of its
  records.
\<close>

theorem calculate_growth_rate_frame:
  "length (calculate_growth_rate population_data) = length population_data
   \<and> map PopulationData.country (calculate_growth_rate population_data)
       = map PopulationData.country population_data
   \<and> map year (calculate_growth_rate population_data) = map year population_data
   \<and> map population (calculate_growth_rate population_data) = map population population_data"
proof -
  have len: "length (calculate_growth_rate population_data) = length population_data"
    by (simp add: calculate_growth_rate_def growth_loop_length)
  have pointwise: "PopulationData.country (calculate_growth_rate population_data ! j)
                     = PopulationData.country (population_data ! j)
                   \<and> year (calculate_growth_rate population_data ! j) = year (population_data ! j)
                   \<and> population (calculate_growth_rate population_data ! j)
                       = population (population_data ! j)"
    if "j < length population_data" for j
    using growth_loop_frame [OF that] by (simp add: calculate_growth_rate_def)
  show ?thesis
    using len pointwise by (simp add: list_eq_iff_nth_eq)
qed

section \<open>Properties of the analyzer\<close>

lemma process_population_data_set:
  "set (process_population_data data) = {d \<in> set data. 0 < population d}"
  by (auto simp: process_population_data_def)

lemma analyze_valid:
  assumes "process_population_data data = first # others"
  shows "analyze_population_trends data =
     Inr \<lparr>PopulationAnalysis.country = PopulationData.country first,
          start_year = Min (set (map year (first # others))),
          end_year = Max (set (map year (first # others))),
          average_growth_rate = series_mean (map growth_rate (first # others)),
          max_population = Max (set (map population (first # others))),
          min_population = Min (set (map population (first # others))),
          total_change = Max (set (map population (first # others)))
                           - Min (set (map population (first # others))),
          percentage_change =
            (if Min (set (map population (first # others))) > 0
             then (real_of_int (Max (set (map population (first # others)))
                                  - Min (set (map population (first # others))))
                     / real_of_int (Min (set (map population (first # others))))) * 100
             else 0)\<rparr>"
  using assms
  by (simp add: analyze_population_trends_def Let_def df_columns_def)

lemma analyze_empty:
  assumes "process_population_data data = []"
  shows "analyze_population_trends data =
           Inl (ValueError ''No valid population data available for analysis'')"
  using assms by (simp add: analyze_population_trends_def)

subsection \<open>Maximum, minimum and change\<close>

text \<open>
  Claim C2. On an input that has a record with a positive population the analyzer returns
  an analysis whose \<open>max_population\<close> and \<open>min_population\<close> are the maximum and the
  minimum of the populations of the records with a positive population, whose
  \<open>total_change\<close> is their difference and whose \<open>percentage_change\<close> is
  \<open>total_change / min_population * 100\<close> (0 if \<open>min_population = 0\<close>). On the populations
  100, 110, 99 of the years 2000 to 2002 it returns the maximum 110, the minimum 99, the
  total change 11 and the percentage change \<open>100 / 9\<close>, which is 11.11 up to a hundredth.
\<close>

theorem analyze_population_trends_statistics:
  assumes "\<exists>d \<in> set data. 0 < population d"
  shows
    "(\<exists>a. analyze_population_trends data = Inr a
        \<and> max_population a = Max (set (map population (filter (\<lambda>d. 0 < population d) data)))
        \<and> min_population a = Min (set (map population (filter (\<lambda>d. 0 < population d) data)))
        \<and> total_change a = max_population a - min_population a
        \<and> percentage_change a =
            (if min_population a = 0 then 0
             else real_of_int (total_change a) / real_of_int (min_population a) * 100))
     \<and> (\<exists>a. analyze_population_trends
              [\<lparr>PopulationData.country = ''USA'', year = 2000, population = 100, growth_rate = None\<rparr>,
               \<lparr>PopulationData.country = ''USA'', year = 2001, population = 110, growth_rate = None\<rparr>,
               \<lparr>PopulationData.country = ''USA'', year = 2002, population = 99, growth_rate = None\<rparr>]
            = Inr a
          \<and> max_population a = 110 \<and> min_population a = 99 \<and> total_change a = 11
          \<and> percentage_change a = 100 / 9
          \<and> \<bar>percentage_change a - 11.11\<bar> < 0.01)"
proof (rule conjI)
  from assms have "process_population_data data \<noteq> []"
    by (simp add: process_population_data_def filter_empty_conv)
  then obtain first others where valid: "process_population_data data = first # others"
    by (cases "process_population_data data") auto
  let ?pops = "set (map population (first # others))"
  have pops: "map population (first # others)
                = map population (filter (\<lambda>d. 0 < population d) data)"
    using valid by (simp add: process_population_data_def)
  have "Min ?pops \<in> ?pops"
    by (rule Min_in) simp_all
  then obtain d where "d \<in> set (process_population_data data)" and "Min ?pops = population d"
    unfolding valid by auto
  then have "0 < Min ?pops"
    by (simp add: process_population_data_set)
  then show "\<exists>a. analyze_population_trends data = Inr a
        \<and> max_population a = Max (set (map population (filter (\<lambda>d. 0 < population d) data)))
        \<and> min_population a = Min (set (map population (filter (\<lambda>d. 0 < population d) data)))
        \<and> total_change a = max_population a - min_population a
        \<and> percentage_change a =
            (if min_population a = 0 then 0
             else real_of_int (total_change a) / real_of_int (min_population a) * 100)"
    using analyze_valid [OF valid] unfolding pops by simp
next
  show "\<exists>a. analyze_population_trends
              [\<lparr>PopulationData.country = ''USA'', year = 2000, population = 100, growth_rate = None\<rparr>,
               \<lparr>PopulationData.country = ''USA'', year = 2001, population = 110, growth_rate = None\<rparr>,
               \<lparr>PopulationData.country = ''USA'', year = 2002, population = 99, growth_rate = None\<rparr>]
            = Inr a
          \<and> max_population a = 110 \<and> min_population a = 99 \<and> total_change a = 11
          \<and> percentage_change a = 100 / 9
          \<and> \<bar>percentage_change a - 11.11\<bar> < 0.01"
    by (simp add: analyze_population_trends_def process_population_data_def Let_def
          df_columns_def series_mean_def)
qed

theorem analyze_population_trends_statistics_witness:
  "\<exists>a. analyze_population_trends
          [\<lparr>PopulationData.country = ''DEU'', year = 1990, population = 0, growth_rate = None\<rparr>,
           \<lparr>PopulationData.country = ''DEU'', year = 1991, population = 80, growth_rate = None\<rparr>,
           \<lparr>PopulationData.country = ''DEU'', year = 1992, population = 100, growth_rate = Some 25\<rparr>]
        = Inr a
      \<and> max_population a = 100 \<and> min_population a = 80 \<and> total_change a = 20
      \<and> percentage_change a = 25"
proof -
  let ?data = "[\<lparr>PopulationData.country = ''DEU'', year = 1990, population = 0::int, growth_rate = None\<rparr>,
           \<lparr>PopulationData.country = ''DEU'', year = 1991, population = 80, growth_rate = None\<rparr>,
           \<lparr>PopulationData.country = ''DEU'', year = 1992, population = 100, growth_rate = Some 25\<rparr>]"
  have h: "\<exists>d \<in> set ?data. 0 < population d"
    by simp
  from analyze_population_trends_statistics [OF h]
  obtain a where a: "analyze_population_trends ?data = Inr a"
      "max_population a = Max (set (map population (filter (\<lambda>d. 0 < population d) ?data)))"
      "min_population a = Min (set (map population (filter (\<lambda>d. 0 < population d) ?data)))"
      "total_change a = max_population a - min_population a"
      "percentage_change a =
            (if min_population a = 0 then 0
             else real_of_int (total_change a) / real_of_int (min_population a) * 100)"
    by blast
  have "max_population a = 100" and "min_population a = 80"
    using a(2,3) by simp_all
  then show ?thesis
    using a by simp
qed

subsection \<open>The failure on an input without valid records\<close>

text \<open>
  Claim C3. The analyzer raises its \<^verbatim>\<open>ValueError\<close> exactly when no record is left after
  the records whose population is not positive have been discarded, and it returns an
  analysis exactly when the input has a record with a positive population. So it fails on
  the empty input and on an input whose populations are all zero.
\<close>

theorem analyze_population_trends_no_data:
  "((analyze_population_trends data
       = Inl (ValueError ''No valid population data available for analysis''))
      = (filter (\<lambda>d. 0 < population d) data = []))
   \<and> ((\<exists>a. analyze_population_trends data = Inr a) = (\<exists>d \<in> set data. 0 < population d))
   \<and> analyze_population_trends []
       = Inl (ValueError ''No valid population data available for analysis'')
   \<and> ((\<forall>d \<in> set data. population d = 0) \<longrightarrow>
        analyze_population_trends data
          = Inl (ValueError ''No valid population data available for analysis''))"
proof (cases "process_population_data data")
  case Nil
  then have "filter (\<lambda>d. 0 < population d) data = []"
    by (simp add: process_population_data_def)
  moreover from this have "\<not> (\<exists>d \<in> set data. 0 < population d)"
    by (simp add: filter_empty_conv)
  ultimately show ?thesis
    using analyze_empty [OF Nil] analyze_empty [of "[]"]
    by (simp add: process_population_data_def)
next
  case (Cons first others)
  then have ne: "filter (\<lambda>d. 0 < population d) data \<noteq> []"
    by (simp add: process_population_data_def)
  then have ex: "\<exists>d \<in> set data. 0 < population d"
    by (simp add: filter_empty_conv)
  then obtain d where "d \<in> set data" and "0 < population d"
    by blast
  then have "\<not> (\<forall>d \<in> set data. population d = 0)"
    by force
  then show ?thesis
    using analyze_valid [OF Cons] ne ex analyze_empty [of "[]"]
    by (simp add: process_population_data_def)
qed

theorem analyze_population_trends_no_data_witness:
  "analyze_population_trends
     [\<lparr>PopulationData.country = ''USA'', year = 2000, population = 0, growth_rate = None\<rparr>,
      \<lparr>PopulationData.country = ''USA'', year = 2001, population = 0, growth_rate = None\<rparr>]
   = Inl (ValueError ''No valid population data available for analysis'')"
proof -
  let ?data = "[\<lparr>PopulationData.country = ''USA'', year = 2000, population = 0::int, growth_rate = None\<rparr>,
      \<lparr>PopulationData.country = ''USA'', year = 2001, population = 0, growth_rate = None\<rparr>]"
  have zero: "\<forall>d \<in> set ?data. population d = 0"
    by simp
  from analyze_population_trends_no_data [of ?data]
  have "(\<forall>d \<in> set ?data. population d = 0) \<longrightarrow>
        analyze_population_trends ?data
          = Inl (ValueError ''No valid population data available for analysis'')"
    by (elim conjE)
  with zero show ?thesis by (rule rev_mp)
qed

subsection \<open>The average growth rate\<close>

text \<open>
  The average is the mean of the column of growth rates of the valid records: the column is
  in the frame whenever there is a valid record, so the alternative \<^verbatim>\<open>else 0\<close> of line 62
  is never taken.
\<close>

lemma analyze_average_growth_rate_mean:
  assumes "analyze_population_trends data = Inr a"
  shows "average_growth_rate a
           = series_mean (map growth_rate (filter (\<lambda>d. 0 < population d) data))"
proof (cases "process_population_data data")
  case Nil
  then show ?thesis using assms analyze_empty [OF Nil] by simp
next
  case (Cons first others)
  then show ?thesis using assms analyze_valid [OF Cons]
    by (auto simp: process_population_data_def)
qed

text \<open>
  Claim C4 says that the average growth rate is 0 when no record has a growth rate. On the
  single record of the year 2000 with population 100 and no growth rate the analyzer
  returns an analysis whose average growth rate is \<^verbatim>\<open>nan\<close>, not 0.
\<close>

theorem analyze_average_growth_rate_unset:
  "analyze_population_trends
     [\<lparr>PopulationData.country = ''USA'', year = 2000, population = 100, growth_rate = None\<rparr>]
   = Inr \<lparr>PopulationAnalysis.country = ''USA'', start_year = 2000, end_year = 2000,
          average_growth_rate = NaN, max_population = 100, min_population = 100,
          total_change = 0, percentage_change = 0\<rparr>
   \<and> NaN \<noteq> Finite 0"
  by (simp add: analyze_population_trends_def process_population_data_def Let_def df_columns_def
        series_mean_def)

section \<open>Properties of the filter and the export\<close>

text \<open>
  Claim C5 says that a bound excludes the records without a growth rate. With the lower
  bound 5, on a list whose first record has no growth rate (as the first record of every
  list that \<^verbatim>\<open>calculate_growth_rate\<close> returns), the filter raises \<^verbatim>\<open>TypeError\<close> and returns
  no list.
\<close>

theorem filter_by_growth_rate_unset_raises:
  "filter_by_growth_rate
     [\<lparr>PopulationData.country = ''USA'', year = 2000, population = 100, growth_rate = None\<rparr>,
      \<lparr>PopulationData.country = ''USA'', year = 2001, population = 110, growth_rate = Some 10\<rparr>]
     (Some 5) None
   = Inl TypeError"
  by (simp add: filter_by_growth_rate_def growth_filter_def py_ge_def)

text \<open>
  Claim C6, as stated, gives the file of every list a header line with the fields country,
  year, population, growth_rate. The file of the empty list is one line without a field.
\<close>

theorem export_to_csv_empty_header:
  "export_to_csv [] = [[]]
   \<and> hd (export_to_csv [])
       \<noteq> [CStr ''country'', CStr ''year'', CStr ''population'', CStr ''growth_rate'']"
  by (simp add: export_to_csv_def df_columns_def)

text \<open>
  Claim C6, amended. The file of a list of \<open>N\<close> records has \<open>N + 1\<close> lines. When the list
  is not empty its first line has the fields country, year, population, growth_rate, in
  this order; when the list is empty its only line has no field. The other lines are the
  records in their order, each with its country, year, population and growth rate, the
  last field empty when the growth rate is unset.
\<close>

theorem export_to_csv_lines:
  "length (export_to_csv data) = length data + 1
   \<and> hd (export_to_csv data)
       = (if data = [] then []
          else [CStr ''country'', CStr ''year'', CStr ''population'', CStr ''growth_rate''])
   \<and> tl (export_to_csv data)
       = map (\<lambda>d. [CStr (PopulationData.country d), CInt (year d), CInt (population d),
                    (case growth_rate d of None \<Rightarrow> CNone | Some g \<Rightarrow> CFloat g)]) data"
  by (simp add: export_to_csv_def df_columns_def record_cells_def)

section \<open>Properties of the fetch client\<close>

subsection \<open>The range fetcher\<close>

lemma yield_valid_positive:
  "d \<in> set (fst (yield_valid ds)) \<Longrightarrow> py_gt_zero (population d) = Inr True"
proof (induction ds)
  case Nil
  then show ?case by simp
next
  case (Cons x xs)
  then show ?case
    by (auto split: sum.splits prod.splits if_splits)
qed

lemma py_gt_zero_True:
  "py_gt_zero v = Inr True \<Longrightarrow>
     v \<noteq> JInt 0 \<and> (\<forall>n. v = JInt n \<longrightarrow> 0 < n) \<and> (\<forall>r. v = JFloat r \<longrightarrow> 0 < r)"
  by (cases v) auto

text \<open>
  Claim C7. Every record that the range fetcher yields passed the test
  \<^verbatim>\<open>data.population > 0\<close>: its population is not 0, and it is positive when it is an
  integer or a float. This holds for every behaviour of the HTTP layer, every order of
  completion, every country code and every range of years, also when a comparison raises
  and ends the generator.
\<close>

theorem get_country_population_range_positive:
  "\<forall>d \<in> set (fst (get_country_population_range api completion country_code from_year to_year)).
      py_gt_zero (population d) = Inr True
      \<and> population d \<noteq> JInt 0
      \<and> (\<forall>n. population d = JInt n \<longrightarrow> 0 < n)
      \<and> (\<forall>r. population d = JFloat r \<longrightarrow> 0 < r)"
  using yield_valid_positive py_gt_zero_True
  unfolding get_country_population_range_def by blast

theorem get_country_population_range_positive_witness:
  "fst (get_country_population_range
          (\<lambda>c y. if y = 2000
                  then Response 200 (Some (JArr [JNull, JArr [JObj [(''value'', JInt 7)]]]))
                  else if y = 2001 then Response 404 None else ConnectionFailed)
          rev ''USA'' 2000 2002)
     = [\<lparr>PopulationData.country = ''USA'', year = 2000, population = JInt 7, growth_rate = None\<rparr>]
   \<and> py_gt_zero
       (population
          (hd (fst (get_country_population_range
                      (\<lambda>c y. if y = 2000
                              then Response 200 (Some (JArr [JNull, JArr [JObj [(''value'', JInt 7)]]]))
                              else if y = 2001 then Response 404 None else ConnectionFailed)
                      rev ''USA'' 2000 2002))))
     = Inr True"
proof -
  let ?api = "\<lambda>(c::string) (y::int). if y = 2000
                  then Response 200 (Some (JArr [JNull, JArr [JObj [(''value'', JInt 7)]]]))
                  else if y = 2001 then Response 404 None else ConnectionFailed"
  let ?ys = "fst (get_country_population_range ?api rev ''USA'' 2000 2002)"
  have ys: "?ys = [\<lparr>PopulationData.country = ''USA'', year = 2000, population = JInt 7,
                    growth_rate = None\<rparr>]"
    by (simp add: get_country_population_range_def upto.simps get_country_population_def
          try_fetch_def)
  then have mem: "hd ?ys \<in> set ?ys"
    by simp
  from get_country_population_range_positive [of ?api rev "''USA''" 2000 2002, THEN bspec, OF mem]
  have "py_gt_zero (population (hd ?ys)) = Inr True"
    by (rule conjunct1)
  with ys show ?thesis by simp
qed

subsection \<open>The single fetch\<close>

lemma try_fetch_Some:
  "try_fetch outcome = Inr (Some v) \<longleftrightarrow> accepted_value outcome = Some v"
  unfolding try_fetch_def accepted_value_def
  by (auto split: http_outcome.splits option.splits json.splits list.splits sum.splits if_splits)

text \<open>
  The value of the first observation is stored as it is, unchecked. For a year without data
  the service sends \<^verbatim>\<open>{"value": null}\<close>: the record then has the population \<^verbatim>\<open>None\<close> and not
  the population 0 of every other path without data, and the test of the range fetcher on it
  raises and ends the generator before the records of the later tasks.
\<close>

lemma get_country_population_null_value:
  "get_country_population (Response 200 (Some (JArr [JNull, JArr [JObj [(''value'', JNull)]]])))
     ''USA'' 2001
     = \<lparr>PopulationData.country = ''USA'', year = 2001, population = JNull, growth_rate = None\<rparr>
   \<and> get_country_population_range
       (\<lambda>c y. if y = 2001
               then Response 200 (Some (JArr [JNull, JArr [JObj [(''value'', JNull)]]]))
               else Response 200 (Some (JArr [JNull, JArr [JObj [(''value'', JInt 7)]]])))
       (\<lambda>ys. ys) ''USA'' 2000 2002
     = ([\<lparr>PopulationData.country = ''USA'', year = 2000, population = JInt 7, growth_rate = None\<rparr>],
        Some TypeError)"
  by (simp add: get_country_population_range_def upto.simps get_country_population_def
        try_fetch_def)

text \<open>
  Claim C8, as stated, has every response that deviates from the two-element shape end in
  the record with population 0. A response with a third element deviates from it, and so
  does a response whose second observation is no object; on both the fetch returns the
  population of the first observation, 331.
\<close>

theorem get_country_population_three_elements:
  "\<not> expected_shape (JArr [JNull, JArr [JObj [(''value'', JInt 331)]], JNull])
   \<and> get_country_population
       (Response 200 (Some (JArr [JNull, JArr [JObj [(''value'', JInt 331)]], JNull])))
       ''USA'' 2000
     = \<lparr>PopulationData.country = ''USA'', year = 2000, population = JInt 331, growth_rate = None\<rparr>
   \<and> \<not> expected_shape (JArr [JNull, JArr [JObj [(''value'', JInt 331)], JStr ''x'']])
   \<and> get_country_population
       (Response 200 (Some (JArr [JNull, JArr [JObj [(''value'', JInt 331)], JStr ''x'']])))
       ''USA'' 2000
     = \<lparr>PopulationData.country = ''USA'', year = 2000, population = JInt 331, growth_rate = None\<rparr>
   \<and> JInt 331 \<noteq> JInt 0"
  by (simp add: expected_shape_def is_observation_def get_country_population_def try_fetch_def)

text \<open>
  Claim C8, amended. A single fetch returns a record for the country and the year, with no
  growth rate, whatever the HTTP layer does: it never raises for a failure of the network or
  of the parsing. The population of the record is 0 when the request fails, when the status
  is not 200, when the body does not parse, and on every body that is not an array of at
  least two elements whose element 1 is a non-empty array whose first element is an object
  with a \<^verbatim>\<open>value\<close> key. On a body that is such an array and whose first observation has an
  integer that is not negative as its value, the population is that integer. Nothing is
  said of a first observation whose value is anything else.
\<close>

theorem get_country_population_result:
  "PopulationData.country (get_country_population outcome country_code yr) = country_code
   \<and> year (get_country_population outcome country_code yr) = yr
   \<and> growth_rate (get_country_population outcome country_code yr) = None
   \<and> (outcome = ConnectionFailed \<longrightarrow>
        population (get_country_population outcome country_code yr) = JInt 0)
   \<and> (outcome = Response status body \<and> (status \<noteq> 200 \<or> body = None) \<longrightarrow>
        population (get_country_population outcome country_code yr) = JInt 0)
   \<and> (accepted_value outcome = None \<longrightarrow>
        population (get_country_population outcome country_code yr) = JInt 0)
   \<and> (outcome = Response 200 (Some (JArr (meta # JArr (JObj kvs # obs) # others)))
        \<and> map_of (rev kvs) ''value'' = Some (JInt n) \<and> 0 \<le> n \<longrightarrow>
        population (get_country_population outcome country_code yr) = JInt n)"
proof (intro conjI impI)
  let ?r = "get_country_population outcome country_code yr"
  show "PopulationData.country ?r = country_code"
    unfolding get_country_population_def by (simp split: sum.splits option.splits)
  show "year ?r = yr"
    unfolding get_country_population_def by (simp split: sum.splits option.splits)
  show "growth_rate ?r = None"
    unfolding get_country_population_def by (simp split: sum.splits option.splits)
  show "population ?r = JInt 0" if "outcome = ConnectionFailed"
    using that by (simp add: get_country_population_def try_fetch_def)
  show "population ?r = JInt 0"
    if "outcome = Response status body \<and> (status \<noteq> 200 \<or> body = None)"
  proof -
    from that have "try_fetch outcome = Inr None \<or> try_fetch outcome = Inl JSONDecodeError"
      by (auto simp: try_fetch_def)
    then show ?thesis
      unfolding get_country_population_def by auto
  qed
  show "population ?r = JInt 0" if "accepted_value outcome = None"
  proof -
    from that have "\<And>v. try_fetch outcome \<noteq> Inr (Some v)"
      using try_fetch_Some by simp
    then show ?thesis
      unfolding get_country_population_def by (auto split: sum.splits option.splits)
  qed
  show "population ?r = JInt n"
    if "outcome = Response 200 (Some (JArr (meta # JArr (JObj kvs # obs) # others)))
        \<and> map_of (rev kvs) ''value'' = Some (JInt n) \<and> 0 \<le> n"
    using that by (simp add: get_country_population_def try_fetch_def)
qed

theorem get_country_population_result_witness:
  "population (get_country_population ConnectionFailed ''USA'' 2000) = JInt 0
   \<and> population (get_country_population (Response 404 None) ''USA'' 2000) = JInt 0
   \<and> population
       (get_country_population
          (Response 200 (Some (JArr [JStr ''page'', JArr [JObj [(''value'', JInt 7)], JNull], JNull])))
          ''USA'' 2000)
     = JInt 7"
proof -
  have one: "population (get_country_population ConnectionFailed ''USA'' 2000) = JInt 0"
    using get_country_population_result [where outcome = ConnectionFailed
        and country_code = "''USA''" and yr = 2000]
    by blast
  have two: "population (get_country_population (Response 404 None) ''USA'' 2000) = JInt 0"
    using get_country_population_result [where outcome = "Response 404 None"
        and status = 404 and body = None and country_code = "''USA''" and yr = 2000]
    by simp
  have three: "population
       (get_country_population
          (Response 200 (Some (JArr [JStr ''page'', JArr [JObj [(''value'', JInt 7)], JNull], JNull])))
          ''USA'' 2000)
     = JInt 7"
    using get_country_population_result
        [where outcome = "Response 200 (Some (JArr [JStr ''page'',
                              JArr [JObj [(''value'', JInt 7)], JNull], JNull]))"
           and meta = "JStr ''page''" and kvs = "[(''value'', JInt 7)]" and obs = "[JNull]"
           and others = "[JNull]" and n = 7 and country_code = "''USA''" and yr = 2000]
    by simp
  from one two three show ?thesis by simp
qed

subsection \<open>The rate limiter\<close>

lemma rate_limit_call_refines:
  "(case rate_limit_call self now woke of (self', slept) \<Rightarrow> (window_of self', slept))
     = admission_check (rate_limit self) (time_window self) (window_of self) now woke"
  by (simp add: rate_limit_call_def admission_check_def window_of_def Let_def)

lemma third_call_sleeps:
  assumes "0 \<le> t" and "t < 1"
  shows "snd (rate_limit_call
           (fst (rate_limit_call (fst (rate_limit_call (init_client 2 1 0) 0 w1)) 0 w2)) t woke)
         = Some (1 - t)"
  using assms by (simp add: rate_limit_call_def init_client_def Let_def)

text \<open>
  Claim C9. A call of \<^verbatim>\<open>_rate_limit\<close> is the admission check of the fixed window: when the
  time since the start of the window is at least \<open>time_window\<close> the window is reset (count
  0, start now); otherwise, when the count has reached \<open>rate_limit\<close>, the call sleeps for
  the rest of the window and then resets the window; the count is incremented in every
  case. With \<open>rate_limit = 2\<close> and \<open>time_window = 1\<close>, of five calls issued at time 0 the
  first two are admitted at time 0 without a sleep, and the third sleeps for the rest of the
  window, 1, before it is admitted; a third call that reaches the check at a time \<open>t\<close> of the
  first window sleeps for \<open>1 - t\<close>.
\<close>

theorem rate_limit_fixed_window:
  "(case rate_limit_call self now woke of (self', slept) \<Rightarrow> (window_of self', slept))
     = admission_check (rate_limit self) (time_window self) (window_of self) now woke
   \<and> request_count (fst (rate_limit_call self now woke))
       = (if now - last_request_time self \<ge> real_of_int (time_window self)
             \<or> request_count self \<ge> rate_limit self
          then 0 else request_count self) + 1
   \<and> issue_calls 5 (init_client 2 1 0) 0
       = [(None, 0), (None, 0), (Some 1, 1), (None, 1), (Some 1, 2)]
   \<and> (0 \<le> t \<and> t < 1 \<longrightarrow>
        snd (rate_limit_call
           (fst (rate_limit_call (fst (rate_limit_call (init_client 2 1 0) 0 wa)) 0 wb)) t woke)
         = Some (1 - t))"
proof (intro conjI impI)
  show "(case rate_limit_call self now woke of (self', slept) \<Rightarrow> (window_of self', slept))
     = admission_check (rate_limit self) (time_window self) (window_of self) now woke"
    by (rule rate_limit_call_refines)
  show "request_count (fst (rate_limit_call self now woke))
       = (if now - last_request_time self \<ge> real_of_int (time_window self)
             \<or> request_count self \<ge> rate_limit self
          then 0 else request_count self) + 1"
    by (simp add: rate_limit_call_def Let_def)
  show "issue_calls 5 (init_client 2 1 0) 0
       = [(None, 0), (None, 0), (Some 1, 1), (None, 1), (Some 1, 2)]"
    by (simp add: eval_nat_numeral rate_limit_call_def init_client_def Let_def)
  show "snd (rate_limit_call
           (fst (rate_limit_call (fst (rate_limit_call (init_client 2 1 0) 0 wa)) 0 wb)) t woke)
         = Some (1 - t)" if "0 \<le> t \<and> t < 1"
    using that third_call_sleeps by simp
qed

theorem rate_limit_fixed_window_witness:
  "snd (rate_limit_call
          (fst (rate_limit_call (fst (rate_limit_call (init_client 2 1 0) 0 0)) 0 0))
          (1 / 4) 1)
     = Some (3 / 4)"
proof -
  have h: "(0::real) \<le> 1 / 4 \<and> (1 / 4 :: real) < 1"
    by simp
  from rate_limit_fixed_window
         [where self = "init_client 2 1 0" and now = 0 and woke = 1 and t = "1 / 4"
            and wa = 0 and wb = 0]
  have "(0::real) \<le> 1 / 4 \<and> (1 / 4 :: real) < 1 \<longrightarrow>
        snd (rate_limit_call
          (fst (rate_limit_call (fst (rate_limit_call (init_client 2 1 0) 0 0)) 0 0))
          (1 / 4) 1)
         = Some (1 - 1 / 4)"
    by (elim conjE)
  with h have "snd (rate_limit_call
          (fst (rate_limit_call (fst (rate_limit_call (init_client 2 1 0) 0 0)) 0 0))
          (1 / 4) 1)
         = Some (1 - 1 / 4)"
    by (rule rev_mp)
  then show ?thesis by simp
qed

end
